theory Spec2Isabelle
  imports Main
begin

section \<open>Schema objects read by \<open>schema-to-template-context.ts\<close>\<close>

text \<open>
  A named type of the schema is an instance of one of the six classes of the \<open>graphql\<close>
  package that the dispatcher tests with \<open>instanceof\<close>. An object built by another copy of
  the package is an instance of none of them (the error message of the dispatcher names this
  situation), which is the seventh alternative \<open>OtherInstance\<close>.
\<close>

datatype GraphQLClass =
    GraphQLObjectType
  | GraphQLInputObjectType
  | GraphQLEnumType
  | GraphQLUnionType
  | GraphQLInterfaceType
  | GraphQLScalarType
  | OtherInstance

text \<open>A directive applied in the schema definition language: \<open>@name(arg: value, ...)\<close>.\<close>

record DirectiveNode =
  directiveName :: string
  arguments :: "(string \<times> string) list"

text \<open>
  A type object. \<open>ref\<close> stands for the identity of the JavaScript object, so that two
  objects with the same content are still different values and HOL equality on type
  objects is the \<open>===\<close> of the source. \<open>astNode\<close> holds the directives applied to the type
  where the type was declared (\<open>None\<close>: the object has no \<open>astNode\<close>).
\<close>

record GraphQLNamedType =
  ref :: nat
  name :: string
  cls :: GraphQLClass
  astNode :: "DirectiveNode list option"

text \<open>The type of a field: a named type under any number of list and non-null wrappers.\<close>

datatype GraphQLType =
    Named GraphQLNamedType
  | GraphQLList GraphQLType
  | GraphQLNonNull GraphQLType

text \<open>A directive declared by the schema (\<open>directive @name on ...\<close>).\<close>

record GraphQLDirective =
  declaredName :: string
  locations :: "string list"

text \<open>
  A JavaScript object used as a dictionary from type names to values is an association
  list in the iteration order of its keys. The keys of one object are distinct; theorems
  that need this say so. Keys are GraphQL names, so the integer-like keys that JavaScript
  iterates first and the property name \<open>__proto__\<close> are outside the model.
\<close>

type_synonym GraphQLTypesMap = "(string \<times> GraphQLNamedType) list"

type_synonym DirectiveUsage = "(string \<times> (string \<times> string) list) list"

record GraphQLSchema =
  getTypeMap :: GraphQLTypesMap
  getDirectivesOfSchema :: "GraphQLDirective list"
  schemaAstNode :: "DirectiveNode list option"

text \<open>The objects that can carry applied directives.\<close>

datatype DirectableGraphQLObject =
    SchemaObject GraphQLSchema
  | TypeObject GraphQLNamedType

record 'ast DocumentFile =
  filePath :: string
  content :: 'ast

section \<open>JavaScript primitives\<close>

definition Object_keys :: "(string \<times> 'v) list \<Rightarrow> string list" where
  "Object_keys obj = map fst obj"

text \<open>\<open>obj[key] = v\<close>: an existing key keeps its position, a new key goes last.\<close>

fun assign :: "(string \<times> 'v) list \<Rightarrow> string \<Rightarrow> 'v \<Rightarrow> (string \<times> 'v) list" where
  "assign [] key v = [(key, v)]"
| "assign ((k, w) # obj) key v =
     (if k = key then (k, v) # obj else (k, w) # assign obj key v)"

definition array_includes :: "'a list \<Rightarrow> 'a \<Rightarrow> bool" where
  "array_includes xs x = (x \<in> set xs)"

definition startsWith :: "string \<Rightarrow> string \<Rightarrow> bool" where
  "startsWith s p = (take (length p) s = p)"

section \<open>Functions of the \<open>graphql\<close> and \<open>graphql-toolkit\<close> packages\<close>

text \<open>
  The module imports these functions; their code is not part of the module. They are
  written down here as the packages document them.
\<close>

definition instanceof :: "GraphQLNamedType \<Rightarrow> GraphQLClass \<Rightarrow> bool" where
  "instanceof t c = (cls t = c)"

definition isEnumType :: "GraphQLNamedType \<Rightarrow> bool" where
  "isEnumType t = instanceof t GraphQLEnumType"

definition isNamedType :: "GraphQLNamedType \<Rightarrow> bool" where
  "isNamedType t = (\<not> instanceof t OtherInstance)"

definition introspectionTypeNames :: "string list" where
  "introspectionTypeNames =
     [''__Schema'', ''__Directive'', ''__DirectiveLocation'', ''__Type'', ''__Field'',
      ''__InputValue'', ''__EnumValue'', ''__TypeKind'']"

definition isIntrospectionType :: "GraphQLNamedType \<Rightarrow> bool" where
  "isIntrospectionType t = (isNamedType t \<and> array_includes introspectionTypeNames (name t))"

text \<open>\<open>getNamedType\<close> strips the wrappers; on \<open>undefined\<close> it returns \<open>undefined\<close>.\<close>

fun unwrap :: "GraphQLType \<Rightarrow> GraphQLNamedType" where
  "unwrap (Named t) = t"
| "unwrap (GraphQLList t) = unwrap t"
| "unwrap (GraphQLNonNull t) = unwrap t"

definition getNamedType :: "GraphQLType option \<Rightarrow> GraphQLNamedType option" where
  "getNamedType ty = map_option unwrap ty"

text \<open>
  \<open>visit(doc.content, visitWithTypeInfo(typeInfo, {Field() {...}}))\<close> walks the syntax tree
  of a document and calls the \<open>Field\<close> callback at every field node, where \<open>typeInfo.getType()\<close> is the
  type the schema gives that field (\<open>undefined\<close> for a field the schema does not have).
  The walk itself belongs to the \<open>graphql\<close> package: it is a parameter, the list of the
  values of \<open>typeInfo.getType()\<close> at the field nodes of a document, in visiting order.
\<close>

type_synonym 'ast TypeInfo = "GraphQLSchema \<Rightarrow> 'ast \<Rightarrow> GraphQLType option list"

text \<open>
  \<open>getDirectiveValues(directive, astNode)\<close>: the arguments of the first application of the
  declared directive on the node, \<open>undefined\<close> when the node does not apply it.
\<close>

definition getDirectiveValues ::
  "GraphQLDirective \<Rightarrow> DirectiveNode list \<Rightarrow> (string \<times> string) list option" where
  "getDirectiveValues directive node =
     map_option arguments (find (\<lambda>d. directiveName d = declaredName directive) node)"

text \<open>
  \<open>getDirectives(schema, node)\<close> of \<open>graphql-toolkit\<close>: the directives declared by \<open>schema\<close>
  that are applied on the \<open>astNode\<close> of \<open>node\<close>, keyed by name.
\<close>

definition getDirectives :: "GraphQLSchema \<Rightarrow> DirectableGraphQLObject \<Rightarrow> DirectiveUsage" where
  "getDirectives schema node =
     (let schemaDirectives = getDirectivesOfSchema schema;
          astNode = (case node of SchemaObject s \<Rightarrow> schemaAstNode s | TypeObject t \<Rightarrow> astNode t)
      in case astNode of
           None \<Rightarrow> []
         | Some applied \<Rightarrow>
             foldl (\<lambda>result directive.
                      case getDirectiveValues directive applied of
                        None \<Rightarrow> result
                      | Some directiveValue \<Rightarrow> assign result (declaredName directive) directiveValue)
                   [] schemaDirectives)"

section \<open>Collaborators of the module\<close>

text \<open>
  The per-kind transformers and the directive transformer are other modules of the
  package; the translation takes them as parameters. \<open>transformGraphQLObject\<close> serves both
  object types and input object types, as in the source.
\<close>

record ('o, 'e, 'u, 'i, 's, 'd) transformers =
  transformGraphQLObject :: "GraphQLSchema \<Rightarrow> GraphQLNamedType \<Rightarrow> 'o"
  transformGraphQLEnum :: "GraphQLSchema \<Rightarrow> GraphQLNamedType \<Rightarrow> 'e"
  transformUnion :: "GraphQLSchema \<Rightarrow> GraphQLNamedType \<Rightarrow> 'u"
  transformInterface :: "GraphQLSchema \<Rightarrow> GraphQLNamedType \<Rightarrow> 'i"
  transformScalar :: "GraphQLSchema \<Rightarrow> GraphQLNamedType \<Rightarrow> 's"
  transformDirectives :: "GraphQLSchema \<Rightarrow> GraphQLDirective list \<Rightarrow> 'd list"

text \<open>
  Modelled from the spec: \<open>objectMapToArray\<close> (module \<open>utils/object-map-to-array\<close>) turns the
  filtered map into the ordered list of its entries, key and value, in the iteration order
  of the map.
\<close>

definition objectMapToArray :: "(string \<times> 'v) list \<Rightarrow> (string \<times> 'v) list" where
  "objectMapToArray objectMap = map (\<lambda>(key, v). (key, v)) objectMap"

section \<open>The module\<close>

record ('o, 'e, 'u, 'i, 's, 'd) SchemaTemplateContext =
  types :: "'o list"
  inputTypes :: "'o list"
  enums :: "'e list"
  unions :: "'u list"
  scalars :: "'s list"
  interfaces :: "'i list"
  definedDirectives :: "'d list"
  hasTypes :: bool
  hasInputTypes :: bool
  hasEnums :: bool
  hasUnions :: bool
  hasScalars :: bool
  hasInterfaces :: bool
  hasDefinedDirectives :: bool
  rawSchema :: GraphQLSchema
  directives :: DirectiveUsage
  usesDirectives :: bool

datatype error = UnexpectedGraphQLTypeDefinition string

definition GRAPHQL_PRIMITIVES :: "string list" where
  "GRAPHQL_PRIMITIVES = [''String'', ''Int'', ''Boolean'', ''ID'', ''Float'']"

text \<open>The predicate of the \<open>filter\<close> call in \<open>clearTypes\<close>.\<close>

definition keepKey :: "string list \<Rightarrow> string \<Rightarrow> bool" where
  "keepKey forcedTypes key =
     (array_includes forcedTypes key \<or>
      (\<not> array_includes GRAPHQL_PRIMITIVES key \<and> \<not> startsWith key ''__''))"

text \<open>
  \<open>typesMap[key]\<close> is read for keys of \<open>typesMap\<close> only, so the lookup always finds a value;
  the other branch of the \<open>case\<close> is never taken.
\<close>

definition clearTypes :: "GraphQLTypesMap \<Rightarrow> string list \<Rightarrow> GraphQLTypesMap" where
  "clearTypes typesMap forcedTypes =
     foldl (\<lambda>obj key. case map_of typesMap key of
                         Some v \<Rightarrow> assign obj key v
                       | None \<Rightarrow> obj)
           []
           (filter (keepKey forcedTypes) (Object_keys typesMap))"

text \<open>The \<open>Field\<close> callback of the visitor; the state is \<open>typesToInclude\<close>.\<close>

definition Field_visitor :: "GraphQLNamedType list \<Rightarrow> GraphQLType option \<Rightarrow> GraphQLNamedType list" where
  "Field_visitor typesToInclude typeInfo_getType =
     (case getNamedType typeInfo_getType of
        None \<Rightarrow> typesToInclude
      | Some type \<Rightarrow>
          if isIntrospectionType type \<and> isEnumType type \<and> \<not> array_includes typesToInclude type
          then typesToInclude @ [type]
          else typesToInclude)"

definition includeIntrospectionTypes ::
  "'ast TypeInfo \<Rightarrow> GraphQLSchema \<Rightarrow> 'ast DocumentFile list option \<Rightarrow> GraphQLNamedType list" where
  "includeIntrospectionTypes typeInfo schema documents =
     (case documents of
        None \<Rightarrow> []
      | Some docs \<Rightarrow>
          foldl (\<lambda>typesToInclude doc. foldl Field_visitor typesToInclude (typeInfo schema (content doc)))
                [] docs)"

text \<open>
  The callback of \<open>typesArray.map\<close>, run over the entries in order; the \<open>throw\<close> of the last
  branch ends the whole call.
\<close>

fun dispatch ::
  "('o, 'e, 'u, 'i, 's, 'd) transformers \<Rightarrow> GraphQLSchema \<Rightarrow> (string \<times> GraphQLNamedType) list \<Rightarrow>
   ('o, 'e, 'u, 'i, 's, 'd) SchemaTemplateContext \<Rightarrow>
   error + ('o, 'e, 'u, 'i, 's, 'd) SchemaTemplateContext" where
  "dispatch tr schema [] result = Inr result"
| "dispatch tr schema ((key, actualTypeDef) # rest) result =
     (if instanceof actualTypeDef GraphQLObjectType then
        dispatch tr schema rest
          (result\<lparr>types := types result @ [transformGraphQLObject tr schema actualTypeDef]\<rparr>)
      else if instanceof actualTypeDef GraphQLInputObjectType then
        dispatch tr schema rest
          (result\<lparr>inputTypes := inputTypes result @ [transformGraphQLObject tr schema actualTypeDef]\<rparr>)
      else if instanceof actualTypeDef GraphQLEnumType then
        dispatch tr schema rest
          (result\<lparr>enums := enums result @ [transformGraphQLEnum tr schema actualTypeDef]\<rparr>)
      else if instanceof actualTypeDef GraphQLUnionType then
        dispatch tr schema rest
          (result\<lparr>unions := unions result @ [transformUnion tr schema actualTypeDef]\<rparr>)
      else if instanceof actualTypeDef GraphQLInterfaceType then
        dispatch tr schema rest
          (result\<lparr>interfaces := interfaces result @ [transformInterface tr schema actualTypeDef]\<rparr>)
      else if instanceof actualTypeDef GraphQLScalarType then
        dispatch tr schema rest
          (result\<lparr>scalars := scalars result @ [transformScalar tr schema actualTypeDef]\<rparr>)
      else Inl (UnexpectedGraphQLTypeDefinition key))"

definition schemaToTemplateContext ::
  "'ast TypeInfo \<Rightarrow> ('o, 'e, 'u, 'i, 's, 'd) transformers \<Rightarrow> GraphQLSchema \<Rightarrow>
   'ast DocumentFile list option \<Rightarrow> error + ('o, 'e, 'u, 'i, 's, 'd) SchemaTemplateContext" where
  "schemaToTemplateContext typeInfo tr schema documents =
     (let introspectionTypesToInclude = includeIntrospectionTypes typeInfo schema documents;
          directives = getDirectives schema (SchemaObject schema);
          result = \<lparr>types = [], inputTypes = [], enums = [], unions = [], scalars = [],
                    interfaces = [], definedDirectives = [],
                    hasTypes = False, hasInputTypes = False, hasEnums = False,
                    hasUnions = False, hasScalars = False, hasInterfaces = False,
                    hasDefinedDirectives = False,
                    rawSchema = schema, directives = directives,
                    usesDirectives = (length (Object_keys directives) > 0)\<rparr>;
          rawTypesMap = getTypeMap schema;
          typesMap = clearTypes rawTypesMap (map name introspectionTypesToInclude);
          typesArray = objectMapToArray typesMap
      in case dispatch tr schema typesArray result of
           Inl e \<Rightarrow> Inl e
         | Inr result \<Rightarrow>
             (let result = result\<lparr>definedDirectives :=
                                    transformDirectives tr schema (getDirectivesOfSchema schema)\<rparr>;
                  result = result\<lparr>hasTypes := length (types result) > 0\<rparr>;
                  result = result\<lparr>hasInputTypes := length (inputTypes result) > 0\<rparr>;
                  result = result\<lparr>hasEnums := length (enums result) > 0\<rparr>;
                  result = result\<lparr>hasUnions := length (unions result) > 0\<rparr>;
                  result = result\<lparr>hasScalars := length (scalars result) > 0\<rparr>;
                  result = result\<lparr>hasInterfaces := length (interfaces result) > 0\<rparr>;
                  result = result\<lparr>hasDefinedDirectives := length (definedDirectives result) > 0\<rparr>
              in Inr result))"

section \<open>Notions used in the statements\<close>

text \<open>The second argument of the call of \<open>clearTypes\<close> in \<open>schemaToTemplateContext\<close>.\<close>

definition allowList ::
  "'ast TypeInfo \<Rightarrow> GraphQLSchema \<Rightarrow> 'ast DocumentFile list option \<Rightarrow> string list" where
  "allowList typeInfo schema documents =
     map name (includeIntrospectionTypes typeInfo schema documents)"

text \<open>The local \<open>typesArray\<close> of \<open>schemaToTemplateContext\<close>: the surviving entries, in order.\<close>

definition typesArray ::
  "'ast TypeInfo \<Rightarrow> GraphQLSchema \<Rightarrow> 'ast DocumentFile list option \<Rightarrow>
   (string \<times> GraphQLNamedType) list" where
  "typesArray typeInfo schema documents =
     objectMapToArray (clearTypes (getTypeMap schema) (allowList typeInfo schema documents))"

text \<open>The values of a list of entries that are instances of a class, in the order of the list.\<close>

definition instancesOf ::
  "GraphQLClass \<Rightarrow> (string \<times> GraphQLNamedType) list \<Rightarrow> GraphQLNamedType list" where
  "instancesOf c entries = map snd (filter (\<lambda>e. instanceof (snd e) c) entries)"

text \<open>The state of \<open>result\<close> after the dispatcher has run over entries none of which makes it throw.\<close>

definition pushedAll ::
  "('o, 'e, 'u, 'i, 's, 'd) transformers \<Rightarrow> GraphQLSchema \<Rightarrow> (string \<times> GraphQLNamedType) list \<Rightarrow>
   ('o, 'e, 'u, 'i, 's, 'd) SchemaTemplateContext \<Rightarrow> ('o, 'e, 'u, 'i, 's, 'd) SchemaTemplateContext" where
  "pushedAll tr schema entries result =
     result\<lparr>types := types result @
                       map (transformGraphQLObject tr schema) (instancesOf GraphQLObjectType entries),
            inputTypes := inputTypes result @
                       map (transformGraphQLObject tr schema) (instancesOf GraphQLInputObjectType entries),
            enums := enums result @
                       map (transformGraphQLEnum tr schema) (instancesOf GraphQLEnumType entries),
            unions := unions result @
                       map (transformUnion tr schema) (instancesOf GraphQLUnionType entries),
            scalars := scalars result @
                       map (transformScalar tr schema) (instancesOf GraphQLScalarType entries),
            interfaces := interfaces result @
                       map (transformInterface tr schema) (instancesOf GraphQLInterfaceType entries)\<rparr>"

text \<open>
  The named types at the field nodes of the documents, in visiting order, that pass the two
  tests of the \<open>Field\<close> callback: every occurrence, repetitions included.
\<close>

definition qualifyingFieldTypes ::
  "'ast TypeInfo \<Rightarrow> GraphQLSchema \<Rightarrow> 'ast DocumentFile list option \<Rightarrow> GraphQLNamedType list" where
  "qualifyingFieldTypes typeInfo schema documents =
     (case documents of
        None \<Rightarrow> []
      | Some docs \<Rightarrow>
          filter (\<lambda>t. isIntrospectionType t \<and> isEnumType t)
            (List.map_filter getNamedType
               (concat (map (\<lambda>doc. typeInfo schema (content doc)) docs))))"

text \<open>
  First-discovery order, as the specification words it: every element once, at the place
  of its first occurrence.
\<close>

primrec firstDiscovery :: "'a list \<Rightarrow> 'a list" where
  "firstDiscovery [] = []"
| "firstDiscovery (x # xs) = x # removeAll x (firstDiscovery xs)"

text \<open>
  The names carried by the records of the six lists of a context, read with one projection
  per kind of record, and the condition that, on the types of the type map of the schema, a
  projection returns the name of the type a transformer was given.
\<close>

definition listedNames ::
  "('o \<Rightarrow> string) \<Rightarrow> ('e \<Rightarrow> string) \<Rightarrow> ('u \<Rightarrow> string) \<Rightarrow> ('i \<Rightarrow> string) \<Rightarrow> ('s \<Rightarrow> string) \<Rightarrow>
   ('o, 'e, 'u, 'i, 's, 'd) SchemaTemplateContext \<Rightarrow> string list" where
  "listedNames nameO nameE nameU nameI nameS ctx =
     map nameO (types ctx) @ map nameO (inputTypes ctx) @ map nameE (enums ctx) @
     map nameU (unions ctx) @ map nameS (scalars ctx) @ map nameI (interfaces ctx)"

definition carriesNames ::
  "('o, 'e, 'u, 'i, 's, 'd) transformers \<Rightarrow> GraphQLSchema \<Rightarrow>
   ('o \<Rightarrow> string) \<Rightarrow> ('e \<Rightarrow> string) \<Rightarrow> ('u \<Rightarrow> string) \<Rightarrow> ('i \<Rightarrow> string) \<Rightarrow> ('s \<Rightarrow> string) \<Rightarrow> bool" where
  "carriesNames tr schema nameO nameE nameU nameI nameS =
     list_all (\<lambda>e. nameO (transformGraphQLObject tr schema (snd e)) = name (snd e) \<and>
                   nameE (transformGraphQLEnum tr schema (snd e)) = name (snd e) \<and>
                   nameU (transformUnion tr schema (snd e)) = name (snd e) \<and>
                   nameI (transformInterface tr schema (snd e)) = name (snd e) \<and>
                   nameS (transformScalar tr schema (snd e)) = name (snd e))
              (getTypeMap schema)"

section \<open>Example inputs\<close>

definition typeQuery :: GraphQLNamedType where
  "typeQuery = \<lparr>ref = 1, name = ''Query'', cls = GraphQLObjectType, astNode = None\<rparr>"

definition typeUser :: GraphQLNamedType where
  "typeUser = \<lparr>ref = 2, name = ''User'', cls = GraphQLObjectType,
                astNode = Some [\<lparr>directiveName = ''auth'', arguments = []\<rparr>]\<rparr>"

definition enumRole :: GraphQLNamedType where
  "enumRole = \<lparr>ref = 3, name = ''Role'', cls = GraphQLEnumType, astNode = None\<rparr>"

definition scalarString :: GraphQLNamedType where
  "scalarString = \<lparr>ref = 4, name = ''String'', cls = GraphQLScalarType, astNode = None\<rparr>"

definition introspectionType :: GraphQLNamedType where
  "introspectionType = \<lparr>ref = 5, name = ''__Type'', cls = GraphQLObjectType, astNode = None\<rparr>"

definition introspectionTypeKind :: GraphQLNamedType where
  "introspectionTypeKind = \<lparr>ref = 6, name = ''__TypeKind'', cls = GraphQLEnumType, astNode = None\<rparr>"

definition introspectionDirectiveLocation :: GraphQLNamedType where
  "introspectionDirectiveLocation =
     \<lparr>ref = 9, name = ''__DirectiveLocation'', cls = GraphQLEnumType, astNode = None\<rparr>"

definition introspectionDirective :: GraphQLNamedType where
  "introspectionDirective =
     \<lparr>ref = 10, name = ''__Directive'', cls = GraphQLObjectType, astNode = None\<rparr>"

definition introspectionSchema :: GraphQLNamedType where
  "introspectionSchema =
     \<lparr>ref = 11, name = ''__Schema'', cls = GraphQLObjectType, astNode = None\<rparr>"

definition typePost :: GraphQLNamedType where
  "typePost = \<lparr>ref = 7, name = ''Post'', cls = GraphQLObjectType, astNode = None\<rparr>"

definition typeFromOtherCopy :: GraphQLNamedType where
  "typeFromOtherCopy = \<lparr>ref = 8, name = ''Legacy'', cls = OtherInstance, astNode = None\<rparr>"

text \<open>
  A schema that declares the directive \<open>@auth\<close> and applies it on the type \<open>User\<close> only;
  the schema definition itself carries no directive.
\<close>

definition exampleSchema :: GraphQLSchema where
  "exampleSchema =
     \<lparr>getTypeMap = [(''Query'', typeQuery), (''User'', typeUser), (''Role'', enumRole),
                    (''String'', scalarString), (''Post'', typePost),
                    (''__Schema'', introspectionSchema), (''__Directive'', introspectionDirective),
                    (''__DirectiveLocation'', introspectionDirectiveLocation),
                    (''__Type'', introspectionType), (''__TypeKind'', introspectionTypeKind)],
      getDirectivesOfSchema = [\<lparr>declaredName = ''auth'', locations = [''OBJECT'', ''SCHEMA'']\<rparr>],
      schemaAstNode = Some []\<rparr>"

text \<open>The same schema with \<open>@auth\<close> applied on the schema definition too.\<close>

definition schemaWithDirective :: GraphQLSchema where
  "schemaWithDirective =
     exampleSchema\<lparr>schemaAstNode := Some [\<lparr>directiveName = ''auth'', arguments = []\<rparr>]\<rparr>"

text \<open>The same schema without the enum \<open>Role\<close>; the introspection types are left out too.\<close>

definition schemaWithoutEnum :: GraphQLSchema where
  "schemaWithoutEnum =
     exampleSchema\<lparr>getTypeMap := [(''Query'', typeQuery), (''User'', typeUser),
                                  (''String'', scalarString), (''Post'', typePost)]\<rparr>"

text \<open>The same schema with one more type, built by another copy of the \<open>graphql\<close> package.\<close>

definition schemaWithOtherCopy :: GraphQLSchema where
  "schemaWithOtherCopy =
     exampleSchema\<lparr>getTypeMap := getTypeMap exampleSchema @ [(''Legacy'', typeFromOtherCopy)]\<rparr>"

text \<open>Transformers that return the name of the type, and of each declared directive.\<close>

definition nameTransformers :: "(string, string, string, string, string, string) transformers" where
  "nameTransformers =
     \<lparr>transformGraphQLObject = (\<lambda>schema t. name t),
      transformGraphQLEnum = (\<lambda>schema t. name t),
      transformUnion = (\<lambda>schema t. name t),
      transformInterface = (\<lambda>schema t. name t),
      transformScalar = (\<lambda>schema t. name t),
      transformDirectives = (\<lambda>schema ds. map declaredName ds)\<rparr>"

text \<open>
  Documents given by the types at their field nodes. \<open>introspectionQuery\<close> stands for
  \<open>{ __type(name: "User") { kind ofType { kind } } }\<close>: the field \<open>__type\<close> has the
  object type \<open>__Type\<close>, \<open>kind\<close> the non-null enum \<open>__TypeKind\<close>, \<open>ofType\<close> the type
  \<open>__Type\<close> again. \<open>objectQuery\<close> stands for \<open>{ __type(name: "User") { ofType { name } } }\<close>
  and \<open>locationsQuery\<close> for \<open>{ __schema { directives { locations } } __type(name: "User") { kind } }\<close>;
  its last field type stands for a field the schema does not have.
\<close>

definition fieldTypesGiven :: "(GraphQLType option list) TypeInfo" where
  "fieldTypesGiven schema ast = ast"

definition introspectionQuery :: "(GraphQLType option list) DocumentFile" where
  "introspectionQuery =
     \<lparr>filePath = ''kinds.graphql'',
      content = [Some (Named introspectionType),
                 Some (GraphQLNonNull (Named introspectionTypeKind)),
                 Some (Named introspectionType),
                 Some (GraphQLNonNull (Named introspectionTypeKind))]\<rparr>"

definition locationsQuery :: "(GraphQLType option list) DocumentFile" where
  "locationsQuery =
     \<lparr>filePath = ''locations.graphql'',
      content = [Some (GraphQLNonNull (Named introspectionSchema)),
                 Some (GraphQLNonNull (GraphQLList (GraphQLNonNull (Named introspectionDirective)))),
                 Some (GraphQLNonNull (GraphQLList (GraphQLNonNull (Named introspectionDirectiveLocation)))),
                 Some (Named introspectionType),
                 Some (GraphQLNonNull (Named introspectionTypeKind)),
                 None]\<rparr>"

definition objectQuery :: "(GraphQLType option list) DocumentFile" where
  "objectQuery =
     \<lparr>filePath = ''types.graphql'',
      content = [Some (Named introspectionType), Some (Named introspectionType),
                 Some (Named scalarString)]\<rparr>"

definition exampleContext :: "(string, string, string, string, string, string) SchemaTemplateContext" where
  "exampleContext =
     \<lparr>types = [''Query'', ''User'', ''Post''], inputTypes = [], enums = [''Role''], unions = [],
      scalars = [], interfaces = [], definedDirectives = [''auth''],
      hasTypes = True, hasInputTypes = False, hasEnums = True, hasUnions = False,
      hasScalars = False, hasInterfaces = False, hasDefinedDirectives = True,
      rawSchema = exampleSchema, directives = [], usesDirectives = False\<rparr>"

definition contextWithoutEnum :: "(string, string, string, string, string, string) SchemaTemplateContext" where
  "contextWithoutEnum =
     exampleContext\<lparr>enums := [], hasEnums := False, rawSchema := schemaWithoutEnum\<rparr>"

definition contextWithTypeKind :: "(string, string, string, string, string, string) SchemaTemplateContext" where
  "contextWithTypeKind = exampleContext\<lparr>enums := [''Role'', ''__TypeKind'']\<rparr>"

definition contextWithDirective :: "(string, string, string, string, string, string) SchemaTemplateContext" where
  "contextWithDirective =
     exampleContext\<lparr>rawSchema := schemaWithDirective, directives := [(''auth'', [])],
                    usesDirectives := True\<rparr>"

section \<open>Auxiliary facts\<close>

lemma objectMapToArray_id: "objectMapToArray objectMap = objectMap"
  by (simp add: objectMapToArray_def)

lemma assign_fresh: "key \<notin> fst ` set obj \<Longrightarrow> assign obj key v = obj @ [(key, v)]"
  by (induction obj) auto

lemma map_of_assign: "map_of (assign obj key v) = (map_of obj)(key \<mapsto> v)"
  by (induction obj) (auto simp: fun_eq_iff)

lemma foldl_assign_distinct:
  "distinct ks \<Longrightarrow> set ks \<inter> fst ` set acc = {} \<Longrightarrow> \<forall>k \<in> set ks. map_of m k = Some (g k) \<Longrightarrow>
   foldl (\<lambda>obj key. case map_of m key of Some v \<Rightarrow> assign obj key v | None \<Rightarrow> obj) acc ks
     = acc @ map (\<lambda>k. (k, g k)) ks"
proof (induction ks arbitrary: acc)
  case Nil
  then show ?case by simp
next
  case (Cons k ks)
  have fresh: "k \<notin> fst ` set acc" using Cons.prems(2) by auto
  have step: "set ks \<inter> fst ` set (acc @ [(k, g k)]) = {}"
    using Cons.prems(1,2) by auto
  show ?case
    using Cons.IH[OF _ step] Cons.prems(1,3) by (simp add: assign_fresh[OF fresh])
qed

lemma clearTypes_filter:
  assumes "distinct (Object_keys typesMap)"
  shows "clearTypes typesMap forcedTypes = filter (\<lambda>e. keepKey forcedTypes (fst e)) typesMap"
proof -
  let ?ks = "filter (keepKey forcedTypes) (Object_keys typesMap)"
  let ?g = "\<lambda>k. the (map_of typesMap k)"
  have d: "distinct ?ks" using assms by simp
  have look: "\<forall>k \<in> set ?ks. map_of typesMap k = Some (?g k)"
    by (auto simp: Object_keys_def dest: weak_map_of_SomeI)
  have "clearTypes typesMap forcedTypes = map (\<lambda>k. (k, ?g k)) ?ks"
    unfolding clearTypes_def using foldl_assign_distinct[OF d _ look, of "[]"] by simp
  also have "\<dots> = map (\<lambda>e. (fst e, ?g (fst e))) (filter (\<lambda>e. keepKey forcedTypes (fst e)) typesMap)"
    by (simp add: Object_keys_def filter_map comp_def)
  also have "\<dots> = filter (\<lambda>e. keepKey forcedTypes (fst e)) typesMap"
  proof -
    have "\<forall>e \<in> set typesMap. (fst e, ?g (fst e)) = e"
      using assms by (auto simp: Object_keys_def)
    then show ?thesis by (intro map_idI) simp
  qed
  finally show ?thesis .
qed

text \<open>Without any assumption on the keys: what the fold of \<open>clearTypes\<close> looks up.\<close>

lemma map_of_foldl_assign:
  "map_of (foldl (\<lambda>obj key. case map_of m key of Some v \<Rightarrow> assign obj key v | None \<Rightarrow> obj) acc ks) k
     = (if k \<in> set ks \<and> map_of m k \<noteq> None then map_of m k else map_of acc k)"
proof (induction ks arbitrary: acc)
  case Nil
  show ?case by simp
next
  case (Cons a ks)
  show ?case
    by (cases "map_of m a") (auto simp: Cons.IH map_of_assign)
qed

lemma map_of_clearTypes:
  "map_of (clearTypes typesMap forcedTypes) key
     = (if keepKey forcedTypes key then map_of typesMap key else None)"
proof -
  have "key \<notin> set (Object_keys typesMap) \<Longrightarrow> map_of typesMap key = None"
    by (simp add: Object_keys_def map_of_eq_None_iff)
  then show ?thesis
    unfolding clearTypes_def by (auto simp: map_of_foldl_assign)
qed

lemma keys_clearTypes:
  "set (Object_keys (clearTypes typesMap forcedTypes))
     = {key \<in> set (Object_keys typesMap). keepKey forcedTypes key}"
proof -
  have "key \<in> set (Object_keys (clearTypes typesMap forcedTypes))
          \<longleftrightarrow> key \<in> set (Object_keys typesMap) \<and> keepKey forcedTypes key" for key
  proof -
    have "key \<in> set (Object_keys (clearTypes typesMap forcedTypes))
            \<longleftrightarrow> map_of (clearTypes typesMap forcedTypes) key \<noteq> None"
      by (simp add: Object_keys_def map_of_eq_None_iff)
    also have "\<dots> \<longleftrightarrow> keepKey forcedTypes key \<and> map_of typesMap key \<noteq> None"
      by (simp add: map_of_clearTypes)
    also have "\<dots> \<longleftrightarrow> key \<in> set (Object_keys typesMap) \<and> keepKey forcedTypes key"
      by (auto simp: Object_keys_def map_of_eq_None_iff)
    finally show ?thesis .
  qed
  then show ?thesis by blast
qed

lemma instancesOf_Nil: "instancesOf c [] = []"
  by (simp add: instancesOf_def)

lemma instancesOf_Cons:
  "instancesOf c ((k, t) # es) = (if cls t = c then t # instancesOf c es else instancesOf c es)"
  by (simp add: instancesOf_def instanceof_def)

lemma dispatch_pushedAll:
  "dispatch tr schema entries result =
     (case find (\<lambda>e. instanceof (snd e) OtherInstance) entries of
        Some e \<Rightarrow> Inl (UnexpectedGraphQLTypeDefinition (fst e))
      | None \<Rightarrow> Inr (pushedAll tr schema entries result))"
proof (induction entries arbitrary: result)
  case Nil
  show ?case by (simp add: pushedAll_def instancesOf_Nil)
next
  case (Cons e es)
  obtain k t where e: "e = (k, t)" by (cases e)
  show ?case
  proof (cases "cls t")
    case GraphQLObjectType
    then show ?thesis unfolding e
      by (simp add: Cons.IH instanceof_def pushedAll_def instancesOf_Cons split: option.split)
  next
    case GraphQLInputObjectType
    then show ?thesis unfolding e
      by (simp add: Cons.IH instanceof_def pushedAll_def instancesOf_Cons split: option.split)
  next
    case GraphQLEnumType
    then show ?thesis unfolding e
      by (simp add: Cons.IH instanceof_def pushedAll_def instancesOf_Cons split: option.split)
  next
    case GraphQLUnionType
    then show ?thesis unfolding e
      by (simp add: Cons.IH instanceof_def pushedAll_def instancesOf_Cons split: option.split)
  next
    case GraphQLInterfaceType
    then show ?thesis unfolding e
      by (simp add: Cons.IH instanceof_def pushedAll_def instancesOf_Cons split: option.split)
  next
    case GraphQLScalarType
    then show ?thesis unfolding e
      by (simp add: Cons.IH instanceof_def pushedAll_def instancesOf_Cons split: option.split)
  next
    case OtherInstance
    then show ?thesis unfolding e
      by (simp add: instanceof_def)
  qed
qed

lemma context_Inl:
  assumes "schemaToTemplateContext typeInfo tr schema documents = Inl err"
  shows "\<exists>e. find (\<lambda>e. instanceof (snd e) OtherInstance) (typesArray typeInfo schema documents) = Some e
          \<and> err = UnexpectedGraphQLTypeDefinition (fst e)"
  using assms
  by (auto simp: schemaToTemplateContext_def Let_def dispatch_pushedAll typesArray_def allowList_def
           split: option.splits)

lemma context_Inr:
  assumes "schemaToTemplateContext typeInfo tr schema documents = Inr ctx"
  shows "find (\<lambda>e. instanceof (snd e) OtherInstance) (typesArray typeInfo schema documents) = None"
    and "types ctx = map (transformGraphQLObject tr schema)
           (instancesOf GraphQLObjectType (typesArray typeInfo schema documents))"
    and "inputTypes ctx = map (transformGraphQLObject tr schema)
           (instancesOf GraphQLInputObjectType (typesArray typeInfo schema documents))"
    and "enums ctx = map (transformGraphQLEnum tr schema)
           (instancesOf GraphQLEnumType (typesArray typeInfo schema documents))"
    and "unions ctx = map (transformUnion tr schema)
           (instancesOf GraphQLUnionType (typesArray typeInfo schema documents))"
    and "scalars ctx = map (transformScalar tr schema)
           (instancesOf GraphQLScalarType (typesArray typeInfo schema documents))"
    and "interfaces ctx = map (transformInterface tr schema)
           (instancesOf GraphQLInterfaceType (typesArray typeInfo schema documents))"
    and "definedDirectives ctx = transformDirectives tr schema (getDirectivesOfSchema schema)"
    and "hasTypes ctx = (types ctx \<noteq> [])"
    and "hasInputTypes ctx = (inputTypes ctx \<noteq> [])"
    and "hasEnums ctx = (enums ctx \<noteq> [])"
    and "hasUnions ctx = (unions ctx \<noteq> [])"
    and "hasScalars ctx = (scalars ctx \<noteq> [])"
    and "hasInterfaces ctx = (interfaces ctx \<noteq> [])"
    and "hasDefinedDirectives ctx = (definedDirectives ctx \<noteq> [])"
    and "rawSchema ctx = schema"
    and "directives ctx = getDirectives schema (SchemaObject schema)"
    and "usesDirectives ctx = (Object_keys (getDirectives schema (SchemaObject schema)) \<noteq> [])"
  using assms
  by (auto simp: schemaToTemplateContext_def Let_def dispatch_pushedAll typesArray_def allowList_def
                 pushedAll_def
           split: option.splits)

lemma context_returned:
  "find (\<lambda>e. instanceof (snd e) OtherInstance) (typesArray typeInfo schema documents) = None \<Longrightarrow>
   \<exists>ctx. schemaToTemplateContext typeInfo tr schema documents = Inr ctx"
  by (simp add: schemaToTemplateContext_def Let_def dispatch_pushedAll typesArray_def allowList_def)

lemma removeAll_firstDiscovery: "removeAll x (firstDiscovery xs) = firstDiscovery (removeAll x xs)"
proof (induction xs)
  case Nil
  show ?case by simp
next
  case (Cons y ys)
  have comm: "removeAll x (removeAll y zs) = removeAll y (removeAll x zs)" for zs
    by (induction zs) auto
  show ?case using Cons.IH by (auto simp: comm)
qed

lemma set_firstDiscovery: "set (firstDiscovery xs) = set xs"
  by (induction xs) auto

lemma distinct_firstDiscovery: "distinct (firstDiscovery xs)"
  by (induction xs) (auto simp: distinct_removeAll)

lemma filter_not_in_snoc:
  "filter (\<lambda>u. u \<notin> set (acc @ [t])) xs = removeAll t (filter (\<lambda>u. u \<notin> set acc) xs)"
  by (induction xs) auto

lemma foldl_Field_visitor:
  "foldl Field_visitor acc fts =
     acc @ firstDiscovery (filter (\<lambda>t. t \<notin> set acc)
             (filter (\<lambda>t. isIntrospectionType t \<and> isEnumType t) (List.map_filter getNamedType fts)))"
proof (induction fts arbitrary: acc)
  case Nil
  show ?case by simp
next
  case (Cons ty fts)
  let ?Q = "filter (\<lambda>t. isIntrospectionType t \<and> isEnumType t) (List.map_filter getNamedType fts)"
  show ?case
  proof (cases "getNamedType ty")
    case None
    then show ?thesis using Cons.IH[of acc] by (simp add: Field_visitor_def)
  next
    case (Some t)
    show ?thesis
    proof (cases "isIntrospectionType t \<and> isEnumType t \<and> t \<notin> set acc")
      case False
      then show ?thesis using Some Cons.IH[of acc]
        by (auto simp: Field_visitor_def array_includes_def)
    next
      case True
      have step: "Field_visitor acc ty = acc @ [t]"
        using True Some by (simp add: Field_visitor_def array_includes_def)
      have "foldl Field_visitor acc (ty # fts) = foldl Field_visitor (acc @ [t]) fts"
        by (simp add: step)
      also have "\<dots> = (acc @ [t]) @ firstDiscovery (filter (\<lambda>u. u \<notin> set (acc @ [t])) ?Q)"
        by (rule Cons.IH)
      also have "\<dots> = acc @ t # removeAll t (firstDiscovery (filter (\<lambda>u. u \<notin> set acc) ?Q))"
        by (simp only: filter_not_in_snoc removeAll_firstDiscovery append_assoc append_Cons append_Nil)
      also have "\<dots> = acc @ firstDiscovery (filter (\<lambda>u. u \<notin> set acc)
             (filter (\<lambda>t. isIntrospectionType t \<and> isEnumType t) (List.map_filter getNamedType (ty # fts))))"
        using True Some by simp
      finally show ?thesis .
    qed
  qed
qed

lemma foldl_documents:
  "foldl (\<lambda>typesToInclude doc. foldl Field_visitor typesToInclude (f doc)) acc docs
     = foldl Field_visitor acc (concat (map f docs))"
  by (induction docs arbitrary: acc) simp_all

lemma includeIntrospectionTypes_firstDiscovery:
  "includeIntrospectionTypes typeInfo schema documents
     = firstDiscovery (qualifyingFieldTypes typeInfo schema documents)"
proof (cases documents)
  case None
  then show ?thesis by (simp add: includeIntrospectionTypes_def qualifyingFieldTypes_def)
next
  case (Some docs)
  have "includeIntrospectionTypes typeInfo schema documents
          = foldl Field_visitor [] (concat (map (\<lambda>doc. typeInfo schema (content doc)) docs))"
    unfolding includeIntrospectionTypes_def Some by (simp only: option.case foldl_documents)
  then show ?thesis by (simp add: foldl_Field_visitor qualifyingFieldTypes_def Some)
qed

lemma length_instancesOf:
  "find (\<lambda>e. instanceof (snd e) OtherInstance) entries = None \<Longrightarrow>
   length (instancesOf GraphQLObjectType entries) + length (instancesOf GraphQLInputObjectType entries) +
   length (instancesOf GraphQLEnumType entries) + length (instancesOf GraphQLUnionType entries) +
   length (instancesOf GraphQLScalarType entries) + length (instancesOf GraphQLInterfaceType entries)
     = length entries"
proof (induction entries)
  case Nil
  show ?case by (simp add: instancesOf_Nil)
next
  case (Cons e es)
  obtain k t where e: "e = (k, t)" by (cases e)
  from Cons.prems have no: "cls t \<noteq> OtherInstance"
    and rest: "find (\<lambda>e. instanceof (snd e) OtherInstance) es = None"
    by (auto simp: e instanceof_def split: if_splits)
  show ?case
    using Cons.IH[OF rest] no unfolding e by (cases "cls t") (simp_all add: instancesOf_Cons)
qed

lemma count_list_distinct:
  "distinct xs \<Longrightarrow> count_list xs x = (if x \<in> set xs then 1 else 0)"
  by (induction xs) auto

lemma count_instancesOf:
  "find (\<lambda>e. instanceof (snd e) OtherInstance) entries = None \<Longrightarrow>
   count_list (map f (instancesOf GraphQLObjectType entries)) x +
   count_list (map f (instancesOf GraphQLInputObjectType entries)) x +
   count_list (map f (instancesOf GraphQLEnumType entries)) x +
   count_list (map f (instancesOf GraphQLUnionType entries)) x +
   count_list (map f (instancesOf GraphQLScalarType entries)) x +
   count_list (map f (instancesOf GraphQLInterfaceType entries)) x
     = count_list (map (\<lambda>e. f (snd e)) entries) x"
proof (induction entries)
  case Nil
  show ?case by (simp add: instancesOf_Nil)
next
  case (Cons e es)
  obtain k t where e: "e = (k, t)" by (cases e)
  from Cons.prems have no: "cls t \<noteq> OtherInstance"
    and rest: "find (\<lambda>e. instanceof (snd e) OtherInstance) es = None"
    by (auto simp: e instanceof_def split: if_splits)
  show ?case
    using Cons.IH[OF rest] no unfolding e by (cases "cls t") (simp_all add: instancesOf_Cons)
qed

lemma keys_assign: "set (Object_keys (assign obj key v)) = insert key (set (Object_keys obj))"
proof -
  have "fst ` set (assign obj key v) = insert key (fst ` set obj)"
    by (simp add: dom_map_of_conv_image_fst[symmetric] map_of_assign)
  then show ?thesis by (simp add: Object_keys_def)
qed

lemma keys_foldl_directives:
  "set (Object_keys (foldl (\<lambda>result directive.
                      case getDirectiveValues directive applied of
                        None \<Rightarrow> result
                      | Some directiveValue \<Rightarrow> assign result (declaredName directive) directiveValue)
                   acc ds))
     = set (Object_keys acc) \<union>
       {declaredName d | d. d \<in> set ds \<and> declaredName d \<in> directiveName ` set applied}"
proof (induction ds arbitrary: acc)
  case Nil
  show ?case by simp
next
  case (Cons d ds)
  have applied: "getDirectiveValues d applied = None \<longleftrightarrow> declaredName d \<notin> directiveName ` set applied"
    by (force simp: getDirectiveValues_def find_None_iff image_iff)
  show ?case
    by (cases "getDirectiveValues d applied") (use applied in \<open>auto simp: Cons.IH keys_assign\<close>)
qed

lemma keys_getDirectives:
  "set (Object_keys (getDirectives schema (SchemaObject schema)))
     = (case schemaAstNode schema of
          None \<Rightarrow> {}
        | Some applied \<Rightarrow>
            {declaredName d | d. d \<in> set (getDirectivesOfSchema schema) \<and>
                                declaredName d \<in> directiveName ` set applied})"
proof (cases "schemaAstNode schema")
  case None
  then show ?thesis by (simp add: getDirectives_def Object_keys_def)
next
  case (Some applied)
  have "set (Object_keys ([] :: DirectiveUsage)) = {}"
    by (simp add: Object_keys_def)
  then show ?thesis
    using Some by (simp add: getDirectives_def keys_foldl_directives)
qed

lemma context_depends_on_allow_list:
  "includeIntrospectionTypes typeInfo schema documents = includeIntrospectionTypes typeInfo schema documents'
   \<Longrightarrow> schemaToTemplateContext typeInfo tr schema documents
         = schemaToTemplateContext typeInfo tr schema documents'"
  by (simp add: schemaToTemplateContext_def)

lemma set_map_filter_Some: "set (List.map_filter f xs) = {y. \<exists>x \<in> set xs. f x = Some y}"
  by (induction xs) (auto split: option.splits)

lemma introspection_name_prefixed: "isIntrospectionType t \<Longrightarrow> startsWith (name t) ''__''"
  by (auto simp: isIntrospectionType_def introspectionTypeNames_def array_includes_def
                 startsWith_def)

lemma allowList_not_primitive:
  "x \<in> set (allowList typeInfo schema documents) \<Longrightarrow> x \<notin> set GRAPHQL_PRIMITIVES"
proof -
  assume "x \<in> set (allowList typeInfo schema documents)"
  then obtain t where "t \<in> set (includeIntrospectionTypes typeInfo schema documents)"
    and x: "x = name t"
    by (auto simp: allowList_def)
  then have "t \<in> set (qualifyingFieldTypes typeInfo schema documents)"
    by (simp add: includeIntrospectionTypes_firstDiscovery set_firstDiscovery)
  then have "isIntrospectionType t"
    by (cases documents) (auto simp: qualifyingFieldTypes_def)
  then show ?thesis
    unfolding x
    by (auto simp: isIntrospectionType_def introspectionTypeNames_def array_includes_def
                   GRAPHQL_PRIMITIVES_def)
qed

section \<open>The example runs\<close>

lemmas example_defs =
  exampleSchema_def schemaWithDirective_def schemaWithOtherCopy_def schemaWithoutEnum_def
  contextWithoutEnum_def nameTransformers_def
  fieldTypesGiven_def introspectionQuery_def objectQuery_def locationsQuery_def
  introspectionDirectiveLocation_def introspectionDirective_def introspectionSchema_def
  typeQuery_def typeUser_def enumRole_def scalarString_def introspectionType_def
  introspectionTypeKind_def typePost_def typeFromOtherCopy_def
  exampleContext_def contextWithTypeKind_def contextWithDirective_def

lemmas model_defs =
  schemaToTemplateContext_def includeIntrospectionTypes_def clearTypes_def keepKey_def
  Field_visitor_def getDirectives_def getDirectiveValues_def getNamedType_def
  isIntrospectionType_def introspectionTypeNames_def isNamedType_def isEnumType_def
  instanceof_def array_includes_def startsWith_def Object_keys_def objectMapToArray_def
  GRAPHQL_PRIMITIVES_def Let_def

lemma run_example:
  "schemaToTemplateContext fieldTypesGiven nameTransformers exampleSchema None = Inr exampleContext"
  by (simp add: model_defs example_defs)

lemma run_introspectionQuery:
  "schemaToTemplateContext fieldTypesGiven nameTransformers exampleSchema (Some [introspectionQuery])
     = Inr contextWithTypeKind"
  by (simp add: model_defs example_defs)

lemma run_objectQuery:
  "schemaToTemplateContext fieldTypesGiven nameTransformers exampleSchema (Some [objectQuery])
     = Inr exampleContext"
  by (simp add: model_defs example_defs)

lemma run_schemaWithDirective:
  "schemaToTemplateContext fieldTypesGiven nameTransformers schemaWithDirective None
     = Inr contextWithDirective"
  by (simp add: model_defs example_defs)

lemma run_schemaWithoutEnum:
  "schemaToTemplateContext fieldTypesGiven nameTransformers schemaWithoutEnum None
     = Inr contextWithoutEnum"
  by (simp add: model_defs example_defs)

lemma run_schemaWithOtherCopy:
  "schemaToTemplateContext fieldTypesGiven nameTransformers schemaWithOtherCopy None
     = Inl (UnexpectedGraphQLTypeDefinition ''Legacy'')"
  by (simp add: model_defs example_defs)

section \<open>The claims\<close>

text \<open>
  Claim C1. For every type map, filtered with the allow-list that \<open>schemaToTemplateContext\<close>
  passes to \<open>clearTypes\<close> (the names of the collected introspection enums, for any schema
  and documents), a name is a key of the filtered map if and only if it is a key of the type
  map, is not one of the five primitive scalar names, and does not start with \<open>__\<close> or is
  in the allow-list. Consequently, when the type map of the schema is keyed by the names of
  its types, the records of the transformers carry the name of their type and
  \<open>schemaToTemplateContext\<close> returns a context, a name of the raw map occurs exactly once in
  the six output lists taken together if and only if it survives, and in none of them if
  and only if it is a primitive scalar name or starts with \<open>__\<close> and is not in the
  allow-list.
\<close>

theorem survivors_listed_once:
  assumes d: "distinct (Object_keys (getTypeMap schema))"
      and named: "\<forall>e \<in> set (getTypeMap schema). name (snd e) = fst e"
      and carried: "carriesNames tr schema nameO nameE nameU nameI nameS"
      and run: "schemaToTemplateContext typeInfo tr schema documents = Inr ctx"
      and key: "key \<in> set (Object_keys (getTypeMap schema))"
  shows "(k \<in> set (Object_keys (clearTypes typesMap (allowList typeInfo' schema' documents'))) \<longleftrightarrow>
            k \<in> set (Object_keys typesMap) \<and> k \<notin> set GRAPHQL_PRIMITIVES \<and>
            (\<not> startsWith k ''__'' \<or> k \<in> set (allowList typeInfo' schema' documents')))
       \<and> (count_list (listedNames nameO nameE nameU nameI nameS ctx) key = 1 \<longleftrightarrow>
            key \<in> set (Object_keys (clearTypes (getTypeMap schema)
                                      (allowList typeInfo schema documents))))
       \<and> (count_list (listedNames nameO nameE nameU nameI nameS ctx) key = 0 \<longleftrightarrow>
            key \<in> set GRAPHQL_PRIMITIVES \<or>
            (startsWith key ''__'' \<and> key \<notin> set (allowList typeInfo schema documents)))"
proof -
  let ?allow = "allowList typeInfo schema documents"
  let ?entries = "typesArray typeInfo schema documents"
  have keep: "keepKey (allowList ti sch docs) x \<longleftrightarrow>
      x \<notin> set GRAPHQL_PRIMITIVES \<and> (\<not> startsWith x ''__'' \<or> x \<in> set (allowList ti sch docs))"
    for ti :: "'x TypeInfo" and sch docs x
    using allowList_not_primitive[of x ti sch docs]
    by (auto simp: keepKey_def array_includes_def)
  have first: "k \<in> set (Object_keys (clearTypes typesMap (allowList typeInfo' schema' documents'))) \<longleftrightarrow>
            k \<in> set (Object_keys typesMap) \<and> k \<notin> set GRAPHQL_PRIMITIVES \<and>
            (\<not> startsWith k ''__'' \<or> k \<in> set (allowList typeInfo' schema' documents'))"
    by (simp add: keys_clearTypes keep)
  have entries: "?entries = filter (\<lambda>e. keepKey ?allow (fst e)) (getTypeMap schema)"
    by (simp add: typesArray_def objectMapToArray_id clearTypes_filter[OF d])
  note fields = context_Inr(1-7)[OF run]
  have inside: "set (instancesOf c ?entries) \<subseteq> snd ` set (getTypeMap schema)" for c
    unfolding entries by (auto simp: instancesOf_def)
  have proj: "nameO (transformGraphQLObject tr schema t) = name t \<and>
              nameE (transformGraphQLEnum tr schema t) = name t \<and>
              nameU (transformUnion tr schema t) = name t \<and>
              nameI (transformInterface tr schema t) = name t \<and>
              nameS (transformScalar tr schema t) = name t"
    if "t \<in> set (instancesOf c ?entries)" for t c
  proof -
    from that inside[of c] obtain e where "e \<in> set (getTypeMap schema)" and "t = snd e"
      by blast
    with carried show ?thesis
      by (simp add: carriesNames_def list_all_iff)
  qed
  have names:
    "map nameO (types ctx) = map name (instancesOf GraphQLObjectType ?entries)"
    "map nameO (inputTypes ctx) = map name (instancesOf GraphQLInputObjectType ?entries)"
    "map nameE (enums ctx) = map name (instancesOf GraphQLEnumType ?entries)"
    "map nameU (unions ctx) = map name (instancesOf GraphQLUnionType ?entries)"
    "map nameS (scalars ctx) = map name (instancesOf GraphQLScalarType ?entries)"
    "map nameI (interfaces ctx) = map name (instancesOf GraphQLInterfaceType ?entries)"
    by (simp_all add: fields(2-7) proj)
  have "count_list (listedNames nameO nameE nameU nameI nameS ctx) key
          = count_list (map name (instancesOf GraphQLObjectType ?entries)) key +
            count_list (map name (instancesOf GraphQLInputObjectType ?entries)) key +
            count_list (map name (instancesOf GraphQLEnumType ?entries)) key +
            count_list (map name (instancesOf GraphQLUnionType ?entries)) key +
            count_list (map name (instancesOf GraphQLScalarType ?entries)) key +
            count_list (map name (instancesOf GraphQLInterfaceType ?entries)) key"
    by (simp add: listedNames_def names)
  also have "\<dots> = count_list (map (\<lambda>e. name (snd e)) ?entries) key"
    by (rule count_instancesOf[OF fields(1)])
  also have "map (\<lambda>e. name (snd e)) ?entries = map fst ?entries"
    using named unfolding entries by (intro map_cong) auto
  also have "map fst ?entries = filter (keepKey ?allow) (Object_keys (getTypeMap schema))"
    unfolding entries by (simp add: Object_keys_def filter_map comp_def)
  also have "count_list \<dots> key = (if keepKey ?allow key then 1 else 0)"
    using d key by (simp add: count_list_distinct)
  finally have count: "count_list (listedNames nameO nameE nameU nameI nameS ctx) key
           = (if keepKey ?allow key then 1 else 0)" .
  have survives: "key \<in> set (Object_keys (clearTypes (getTypeMap schema) ?allow))
                    \<longleftrightarrow> keepKey ?allow key"
    using key by (simp add: keys_clearTypes)
  have second: "count_list (listedNames nameO nameE nameU nameI nameS ctx) key = 1 \<longleftrightarrow>
            key \<in> set (Object_keys (clearTypes (getTypeMap schema) ?allow))"
    unfolding survives count by simp
  have third: "count_list (listedNames nameO nameE nameU nameI nameS ctx) key = 0 \<longleftrightarrow>
            key \<in> set GRAPHQL_PRIMITIVES \<or> (startsWith key ''__'' \<and> key \<notin> set ?allow)"
    unfolding count keep by auto
  show ?thesis by (rule conjI[OF first conjI[OF second third]])
qed

theorem survivors_listed_once_witness:
  "count_list (listedNames id id id id id contextWithTypeKind) ''__TypeKind'' = 1
   \<and> count_list (listedNames id id id id id contextWithTypeKind) ''User'' = 1
   \<and> count_list (listedNames id id id id id contextWithTypeKind) ''String'' = 0
   \<and> count_list (listedNames id id id id id contextWithTypeKind) ''__Type'' = 0
   \<and> ''__TypeKind'' \<in> set (Object_keys (clearTypes (getTypeMap exampleSchema) [''__TypeKind'']))
   \<and> ''__Type'' \<notin> set (Object_keys (clearTypes (getTypeMap exampleSchema) [''__TypeKind'']))
   \<and> ''String'' \<notin> set (Object_keys (clearTypes (getTypeMap exampleSchema) [''__TypeKind'']))"
proof -
  have d: "distinct (Object_keys (getTypeMap exampleSchema))"
    by (simp add: exampleSchema_def Object_keys_def)
  have named: "\<forall>e \<in> set (getTypeMap exampleSchema). name (snd e) = fst e"
    by (simp add: example_defs)
  have carried: "carriesNames nameTransformers exampleSchema id id id id id"
    by (simp add: carriesNames_def nameTransformers_def exampleSchema_def)
  have keys: "''__TypeKind'' \<in> set (Object_keys (getTypeMap exampleSchema))"
    "''User'' \<in> set (Object_keys (getTypeMap exampleSchema))"
    "''String'' \<in> set (Object_keys (getTypeMap exampleSchema))"
    "''__Type'' \<in> set (Object_keys (getTypeMap exampleSchema))"
    by (simp_all add: exampleSchema_def Object_keys_def)
  have allow: "allowList fieldTypesGiven exampleSchema (Some [introspectionQuery]) = [''__TypeKind'']"
    by (simp add: allowList_def model_defs example_defs)
  note inst = survivors_listed_once[OF d named carried run_introspectionQuery,
      where typesMap = "getTypeMap exampleSchema" and typeInfo' = fieldTypesGiven
        and schema' = exampleSchema and documents' = "Some [introspectionQuery]", unfolded allow]
  show ?thesis
    using inst[OF keys(1), of "''__TypeKind''"] inst[OF keys(2), of "''User''"]
      inst[OF keys(3), of "''String''"] inst[OF keys(4), of "''__Type''"] keys
    by (simp add: GRAPHQL_PRIMITIVES_def startsWith_def)
qed

text \<open>
  Claim C2. For every type map and allow-list, \<open>clearTypes\<close> drops an entry whose name is
  one of the five primitive scalar names unless the name is in the allow-list, drops an
  entry whose name starts with \<open>__\<close> unless the name is in the allow-list, and keeps every
  other entry.
\<close>

theorem clearTypes_drops_or_keeps:
  assumes "distinct (Object_keys typesMap)" and "(key, t) \<in> set typesMap"
  shows "(key \<in> set GRAPHQL_PRIMITIVES \<and> key \<notin> set allowed
            \<longrightarrow> key \<notin> set (Object_keys (clearTypes typesMap allowed)))
       \<and> (startsWith key ''__'' \<and> key \<notin> set allowed
            \<longrightarrow> key \<notin> set (Object_keys (clearTypes typesMap allowed)))
       \<and> (\<not> (key \<in> set GRAPHQL_PRIMITIVES \<and> key \<notin> set allowed) \<and>
          \<not> (startsWith key ''__'' \<and> key \<notin> set allowed)
            \<longrightarrow> (key, t) \<in> set (clearTypes typesMap allowed))"
proof -
  have kept: "(key, t) \<in> set (clearTypes typesMap allowed) \<longleftrightarrow> keepKey allowed key"
    using assms by (simp add: clearTypes_filter)
  have "key \<in> set (Object_keys typesMap)"
    using assms(2) by (force simp: Object_keys_def)
  then have keys: "key \<in> set (Object_keys (clearTypes typesMap allowed)) \<longleftrightarrow> keepKey allowed key"
    by (simp add: keys_clearTypes)
  show ?thesis
    unfolding kept keys by (auto simp: keepKey_def array_includes_def)
qed

theorem clearTypes_drops_or_keeps_witness:
  "(''__Type'', introspectionType) \<notin> set (clearTypes (getTypeMap exampleSchema) [''__TypeKind''])
   \<and> ''String'' \<notin> set (Object_keys (clearTypes (getTypeMap exampleSchema) [''__TypeKind'']))
   \<and> (''__TypeKind'', introspectionTypeKind) \<in> set (clearTypes (getTypeMap exampleSchema) [''__TypeKind''])
   \<and> (''User'', typeUser) \<in> set (clearTypes (getTypeMap exampleSchema) [''__TypeKind''])"
proof -
  have d: "distinct (Object_keys (getTypeMap exampleSchema))"
    by (simp add: exampleSchema_def Object_keys_def)
  have m1: "(''String'', scalarString) \<in> set (getTypeMap exampleSchema)"
    and m2: "(''__TypeKind'', introspectionTypeKind) \<in> set (getTypeMap exampleSchema)"
    and m3: "(''User'', typeUser) \<in> set (getTypeMap exampleSchema)"
    and m4: "(''__Type'', introspectionType) \<in> set (getTypeMap exampleSchema)"
    by (simp_all add: exampleSchema_def)
  have p: "''String'' \<in> set GRAPHQL_PRIMITIVES" "''User'' \<notin> set GRAPHQL_PRIMITIVES"
    "''__TypeKind'' \<notin> set GRAPHQL_PRIMITIVES"
    "startsWith ''__Type'' ''__''" "startsWith ''__TypeKind'' ''__''" "\<not> startsWith ''User'' ''__''"
    by (simp_all add: GRAPHQL_PRIMITIVES_def startsWith_def)
  have "''__Type'' \<notin> set (Object_keys (clearTypes (getTypeMap exampleSchema) [''__TypeKind'']))"
    using clearTypes_drops_or_keeps[OF d m4, of "[''__TypeKind'']"] p by simp
  then have "(''__Type'', introspectionType) \<notin> set (clearTypes (getTypeMap exampleSchema) [''__TypeKind''])"
    by (force simp: Object_keys_def)
  then show ?thesis
    using clearTypes_drops_or_keeps[OF d m1, of "[''__TypeKind'']"]
      clearTypes_drops_or_keeps[OF d m2, of "[''__TypeKind'']"]
      clearTypes_drops_or_keeps[OF d m3, of "[''__TypeKind'']"] p
    by simp
qed

text \<open>
  Claim C3, as amended. In every context that \<open>schemaToTemplateContext\<close> returns,
  \<open>directives\<close> is what \<open>getDirectives\<close> reads off the schema object itself, and
  \<open>usesDirectives\<close> is true if and only if that map is not empty, that is, if and only if
  the schema definition applies at least one directive that the schema declares. A directive
  that is declared and never applied leaves it false.
\<close>

theorem usesDirectives_schema_level:
  assumes "schemaToTemplateContext typeInfo tr schema documents = Inr ctx"
  shows "directives ctx = getDirectives schema (SchemaObject schema)
       \<and> (usesDirectives ctx \<longleftrightarrow> directives ctx \<noteq> [])
       \<and> (usesDirectives ctx \<longleftrightarrow>
            (\<exists>applied. schemaAstNode schema = Some applied \<and>
               (\<exists>d \<in> set (getDirectivesOfSchema schema). declaredName d \<in> directiveName ` set applied)))"
proof -
  note fields = context_Inr(17,18)[OF assms]
  have "usesDirectives ctx \<longleftrightarrow> set (Object_keys (getDirectives schema (SchemaObject schema))) \<noteq> {}"
    using fields(2) by simp
  also have "\<dots> \<longleftrightarrow> (\<exists>applied. schemaAstNode schema = Some applied \<and>
               (\<exists>d \<in> set (getDirectivesOfSchema schema). declaredName d \<in> directiveName ` set applied))"
    unfolding keys_getDirectives by (cases "schemaAstNode schema") auto
  finally have third: "usesDirectives ctx \<longleftrightarrow> (\<exists>applied. schemaAstNode schema = Some applied \<and>
               (\<exists>d \<in> set (getDirectivesOfSchema schema). declaredName d \<in> directiveName ` set applied))" .
  have second: "usesDirectives ctx \<longleftrightarrow> directives ctx \<noteq> []"
    using fields by (simp add: Object_keys_def)
  show ?thesis using fields(1) second third by blast
qed

theorem usesDirectives_schema_level_witness:
  "schemaToTemplateContext fieldTypesGiven nameTransformers schemaWithDirective None = Inr contextWithDirective
   \<and> usesDirectives contextWithDirective
   \<and> directives contextWithDirective = [(''auth'', [])]
   \<and> schemaAstNode schemaWithDirective = Some [\<lparr>directiveName = ''auth'', arguments = []\<rparr>]"
  using usesDirectives_schema_level[OF run_schemaWithDirective] run_schemaWithDirective
  by (simp add: contextWithDirective_def exampleContext_def schemaWithDirective_def exampleSchema_def)

text \<open>
  The claim C3 as first stated counts a directive applied anywhere in the schema. In
  \<open>exampleSchema\<close> the declared directive \<open>@auth\<close> is applied on the type \<open>User\<close> and not
  on the schema definition, and \<open>usesDirectives\<close> is false.
\<close>

theorem usesDirectives_type_level_counterexample:
  "(''User'', typeUser) \<in> set (getTypeMap exampleSchema)
   \<and> getDirectives exampleSchema (TypeObject typeUser) = [(''auth'', [])]
   \<and> schemaToTemplateContext fieldTypesGiven nameTransformers exampleSchema None = Inr exampleContext
   \<and> usesDirectives exampleContext = False"
  using run_example
  by (simp add: getDirectives_def getDirectiveValues_def exampleSchema_def typeUser_def
                exampleContext_def)

text \<open>
  Claim C4. The dispatcher is total and exclusive over the six classes.
  \<open>schemaToTemplateContext\<close> fails, and returns no context, if and only if some surviving
  entry is an instance of none of the six classes; the error names such an entry. When it
  returns a context, every surviving entry is an instance of exactly one of the six
  classes, each output list is the image of the surviving instances of its class, and the
  six lists together have as many records as there are surviving entries: nothing is
  dropped and nothing is listed twice.
\<close>

theorem classification_total_exclusive:
  "((\<exists>e \<in> set (typesArray typeInfo schema documents). instanceof (snd e) OtherInstance)
      \<longleftrightarrow> (\<exists>err. schemaToTemplateContext typeInfo tr schema documents = Inl err))
   \<and>
   (case schemaToTemplateContext typeInfo tr schema documents of
      Inl err \<Rightarrow>
        (\<exists>e \<in> set (typesArray typeInfo schema documents).
            instanceof (snd e) OtherInstance \<and> err = UnexpectedGraphQLTypeDefinition (fst e))
    | Inr ctx \<Rightarrow>
        (\<forall>e \<in> set (typesArray typeInfo schema documents).
            \<exists>!c. c \<noteq> OtherInstance \<and> instanceof (snd e) c)
        \<and> types ctx = map (transformGraphQLObject tr schema)
             (instancesOf GraphQLObjectType (typesArray typeInfo schema documents))
        \<and> inputTypes ctx = map (transformGraphQLObject tr schema)
             (instancesOf GraphQLInputObjectType (typesArray typeInfo schema documents))
        \<and> enums ctx = map (transformGraphQLEnum tr schema)
             (instancesOf GraphQLEnumType (typesArray typeInfo schema documents))
        \<and> unions ctx = map (transformUnion tr schema)
             (instancesOf GraphQLUnionType (typesArray typeInfo schema documents))
        \<and> scalars ctx = map (transformScalar tr schema)
             (instancesOf GraphQLScalarType (typesArray typeInfo schema documents))
        \<and> interfaces ctx = map (transformInterface tr schema)
             (instancesOf GraphQLInterfaceType (typesArray typeInfo schema documents))
        \<and> length (types ctx) + length (inputTypes ctx) + length (enums ctx) +
          length (unions ctx) + length (scalars ctx) + length (interfaces ctx)
            = length (typesArray typeInfo schema documents))"
proof (cases "schemaToTemplateContext typeInfo tr schema documents")
  case (Inl err)
  from context_Inl[OF Inl] obtain e where
    f: "find (\<lambda>e. instanceof (snd e) OtherInstance) (typesArray typeInfo schema documents) = Some e"
    and err: "err = UnexpectedGraphQLTypeDefinition (fst e)"
    by blast
  from f have "e \<in> set (typesArray typeInfo schema documents)" and "instanceof (snd e) OtherInstance"
    by (auto simp: find_Some_iff)
  then show ?thesis using Inl err by auto
next
  case (Inr ctx)
  note fields = context_Inr(1-7)[OF Inr]
  have none: "\<forall>e \<in> set (typesArray typeInfo schema documents). \<not> instanceof (snd e) OtherInstance"
    using fields(1) by (auto simp: find_None_iff)
  have one: "\<forall>e \<in> set (typesArray typeInfo schema documents).
               \<exists>!c. c \<noteq> OtherInstance \<and> instanceof (snd e) c"
    using none by (auto simp: instanceof_def)
  have len: "length (types ctx) + length (inputTypes ctx) + length (enums ctx) +
             length (unions ctx) + length (scalars ctx) + length (interfaces ctx)
               = length (typesArray typeInfo schema documents)"
    using length_instancesOf[OF fields(1)] by (simp add: fields(2-7))
  show ?thesis
    unfolding Inr using none one len fields(2-7) by simp
qed

theorem classification_total_exclusive_witness:
  "schemaToTemplateContext fieldTypesGiven nameTransformers schemaWithOtherCopy None
     = Inl (UnexpectedGraphQLTypeDefinition ''Legacy'')
   \<and> (''Legacy'', typeFromOtherCopy) \<in> set (typesArray fieldTypesGiven schemaWithOtherCopy None)
   \<and> schemaToTemplateContext fieldTypesGiven nameTransformers exampleSchema None = Inr exampleContext
   \<and> length (types exampleContext) + length (inputTypes exampleContext) + length (enums exampleContext) +
     length (unions exampleContext) + length (scalars exampleContext) + length (interfaces exampleContext)
       = length (typesArray fieldTypesGiven exampleSchema None)"
proof -
  have bad: "\<exists>e \<in> set (typesArray fieldTypesGiven schemaWithOtherCopy None).
               instanceof (snd e) OtherInstance \<and>
               UnexpectedGraphQLTypeDefinition ''Legacy'' = UnexpectedGraphQLTypeDefinition (fst e)"
    using classification_total_exclusive[where typeInfo = fieldTypesGiven and tr = nameTransformers
        and schema = schemaWithOtherCopy and documents = None, unfolded run_schemaWithOtherCopy sum.case]
    by blast
  have entries: "typesArray fieldTypesGiven schemaWithOtherCopy None
     = [(''Query'', typeQuery), (''User'', typeUser), (''Role'', enumRole), (''Post'', typePost),
        (''Legacy'', typeFromOtherCopy)]"
    by (simp add: typesArray_def allowList_def model_defs example_defs)
  have good: "length (types exampleContext) + length (inputTypes exampleContext) +
      length (enums exampleContext) + length (unions exampleContext) +
      length (scalars exampleContext) + length (interfaces exampleContext)
        = length (typesArray fieldTypesGiven exampleSchema None)"
    using classification_total_exclusive[where typeInfo = fieldTypesGiven and tr = nameTransformers
        and schema = exampleSchema and documents = None, unfolded run_example sum.case]
    by blast
  show ?thesis
    using bad good run_example run_schemaWithOtherCopy by (simp add: entries)
qed

text \<open>
  Claim C5. A type is collected from the documents if and only if it is the named type of
  a field of some document, is an introspection type and is an enum. Without documents
  nothing is collected. A collected type that the type map binds under its name is
  transformed into the \<open>enums\<close> list of the returned context although its name starts with
  \<open>__\<close>. Documents none of whose fields has an enum as its named type change nothing: the
  call returns what it returns without documents.
\<close>

theorem introspection_allow_list:
  "(t \<in> set (includeIntrospectionTypes typeInfo schema (Some docs)) \<longleftrightarrow>
      (\<exists>doc \<in> set docs. \<exists>fieldType \<in> set (typeInfo schema (content doc)).
          getNamedType fieldType = Some t)
      \<and> isIntrospectionType t \<and> isEnumType t)
   \<and> includeIntrospectionTypes typeInfo schema None = []
   \<and> (t \<in> set (includeIntrospectionTypes typeInfo schema (Some docs)) \<and>
      distinct (Object_keys (getTypeMap schema)) \<and> (name t, t) \<in> set (getTypeMap schema) \<and>
      schemaToTemplateContext typeInfo tr schema (Some docs) = Inr ctx
        \<longrightarrow> startsWith (name t) ''__'' \<and> transformGraphQLEnum tr schema t \<in> set (enums ctx))
   \<and> ((\<forall>doc \<in> set docs. \<forall>fieldType \<in> set (typeInfo schema (content doc)).
          \<forall>u. getNamedType fieldType = Some u \<longrightarrow> \<not> isEnumType u)
        \<longrightarrow> schemaToTemplateContext typeInfo tr schema (Some docs)
              = schemaToTemplateContext typeInfo tr schema None)"
proof -
  have member: "u \<in> set (includeIntrospectionTypes typeInfo schema (Some docs)) \<longleftrightarrow>
      (\<exists>doc \<in> set docs. \<exists>fieldType \<in> set (typeInfo schema (content doc)).
          getNamedType fieldType = Some u)
      \<and> isIntrospectionType u \<and> isEnumType u" for u
    unfolding includeIntrospectionTypes_firstDiscovery set_firstDiscovery
    by (auto simp: qualifyingFieldTypes_def set_map_filter_Some)
  have empty: "includeIntrospectionTypes typeInfo schema None = []"
    by (simp add: includeIntrospectionTypes_def)
  have listed: "startsWith (name t) ''__'' \<and> transformGraphQLEnum tr schema t \<in> set (enums ctx)"
    if collected: "t \<in> set (includeIntrospectionTypes typeInfo schema (Some docs))"
      and d: "distinct (Object_keys (getTypeMap schema))"
      and bound: "(name t, t) \<in> set (getTypeMap schema)"
      and run: "schemaToTemplateContext typeInfo tr schema (Some docs) = Inr ctx"
  proof -
    from collected have intro: "isIntrospectionType t" and enum: "isEnumType t"
      using member[of t] by simp_all
    have "name t \<in> set (allowList typeInfo schema (Some docs))"
      using collected by (simp add: allowList_def)
    then have "keepKey (allowList typeInfo schema (Some docs)) (name t)"
      by (simp add: keepKey_def array_includes_def)
    then have "(name t, t) \<in> set (typesArray typeInfo schema (Some docs))"
      using bound by (simp add: typesArray_def objectMapToArray_id clearTypes_filter[OF d])
    then have "t \<in> set (instancesOf GraphQLEnumType (typesArray typeInfo schema (Some docs)))"
      using enum by (force simp: instancesOf_def isEnumType_def)
    then have "transformGraphQLEnum tr schema t \<in> set (enums ctx)"
      by (simp add: context_Inr(4)[OF run])
    then show ?thesis using introspection_name_prefixed[OF intro] by simp
  qed
  have third: "t \<in> set (includeIntrospectionTypes typeInfo schema (Some docs)) \<and>
      distinct (Object_keys (getTypeMap schema)) \<and> (name t, t) \<in> set (getTypeMap schema) \<and>
      schemaToTemplateContext typeInfo tr schema (Some docs) = Inr ctx
        \<longrightarrow> startsWith (name t) ''__'' \<and> transformGraphQLEnum tr schema t \<in> set (enums ctx)"
    using listed by (intro impI) (elim conjE)
  have fourth: "(\<forall>doc \<in> set docs. \<forall>fieldType \<in> set (typeInfo schema (content doc)).
          \<forall>u. getNamedType fieldType = Some u \<longrightarrow> \<not> isEnumType u)
        \<longrightarrow> schemaToTemplateContext typeInfo tr schema (Some docs)
              = schemaToTemplateContext typeInfo tr schema None"
  proof
    assume noenum: "\<forall>doc \<in> set docs. \<forall>fieldType \<in> set (typeInfo schema (content doc)).
          \<forall>u. getNamedType fieldType = Some u \<longrightarrow> \<not> isEnumType u"
    have "u \<notin> set (includeIntrospectionTypes typeInfo schema (Some docs))" for u
      unfolding member[of u] using noenum by blast
    then have "includeIntrospectionTypes typeInfo schema (Some docs) = []"
      by (cases "includeIntrospectionTypes typeInfo schema (Some docs)") auto
    then have "includeIntrospectionTypes typeInfo schema (Some docs)
                 = includeIntrospectionTypes typeInfo schema None"
      by (simp add: empty)
    then show "schemaToTemplateContext typeInfo tr schema (Some docs)
              = schemaToTemplateContext typeInfo tr schema None"
      by (rule context_depends_on_allow_list)
  qed
  show ?thesis
    by (rule conjI[OF member conjI[OF empty conjI[OF third fourth]]])
qed

theorem introspection_allow_list_witness:
  "includeIntrospectionTypes fieldTypesGiven exampleSchema (Some [introspectionQuery])
     = [introspectionTypeKind]
   \<and> schemaToTemplateContext fieldTypesGiven nameTransformers exampleSchema (Some [introspectionQuery])
     = Inr contextWithTypeKind
   \<and> ''__TypeKind'' \<in> set (enums contextWithTypeKind)
   \<and> includeIntrospectionTypes fieldTypesGiven exampleSchema (Some [objectQuery]) = []
   \<and> schemaToTemplateContext fieldTypesGiven nameTransformers exampleSchema (Some [objectQuery])
     = schemaToTemplateContext fieldTypesGiven nameTransformers exampleSchema None"
proof -
  have collected: "includeIntrospectionTypes fieldTypesGiven exampleSchema (Some [introspectionQuery])
     = [introspectionTypeKind]"
    by (simp add: model_defs example_defs)
  have none: "includeIntrospectionTypes fieldTypesGiven exampleSchema (Some [objectQuery]) = []"
    by (simp add: model_defs example_defs)
  have d: "distinct (Object_keys (getTypeMap exampleSchema))"
    by (simp add: exampleSchema_def Object_keys_def)
  have bound: "(name introspectionTypeKind, introspectionTypeKind) \<in> set (getTypeMap exampleSchema)"
    by (simp add: exampleSchema_def introspectionTypeKind_def)
  have noenum: "\<forall>doc \<in> set [objectQuery]. \<forall>fieldType \<in> set (fieldTypesGiven exampleSchema (content doc)).
          \<forall>u. getNamedType fieldType = Some u \<longrightarrow> \<not> isEnumType u"
    by (simp add: objectQuery_def fieldTypesGiven_def getNamedType_def isEnumType_def instanceof_def
                  introspectionType_def scalarString_def)
  note inst1 = introspection_allow_list[where t = introspectionTypeKind and typeInfo = fieldTypesGiven
      and schema = exampleSchema and docs = "[introspectionQuery]" and tr = nameTransformers
      and ctx = contextWithTypeKind]
  note inst2 = introspection_allow_list[where t = introspectionTypeKind and typeInfo = fieldTypesGiven
      and schema = exampleSchema and docs = "[objectQuery]" and tr = nameTransformers
      and ctx = exampleContext]
  have "transformGraphQLEnum nameTransformers exampleSchema introspectionTypeKind
          \<in> set (enums contextWithTypeKind)"
    using inst1 collected d bound run_introspectionQuery by simp
  then have listed: "''__TypeKind'' \<in> set (enums contextWithTypeKind)"
    by (simp add: nameTransformers_def introspectionTypeKind_def)
  have same: "schemaToTemplateContext fieldTypesGiven nameTransformers exampleSchema (Some [objectQuery])
     = schemaToTemplateContext fieldTypesGiven nameTransformers exampleSchema None"
    using inst2 noenum by blast
  show ?thesis using collected none listed same run_introspectionQuery by simp
qed

text \<open>
  Claim C6. The collector returns the qualifying field types in first-discovery order:
  every qualifying type once, at the place of its first occurrence among the fields of the
  documents taken in order. The result has no duplicates.
\<close>

theorem first_discovery_order:
  "includeIntrospectionTypes typeInfo schema documents
     = firstDiscovery (qualifyingFieldTypes typeInfo schema documents)
   \<and> distinct (includeIntrospectionTypes typeInfo schema documents)
   \<and> set (includeIntrospectionTypes typeInfo schema documents)
       = set (qualifyingFieldTypes typeInfo schema documents)"
  by (simp add: includeIntrospectionTypes_firstDiscovery distinct_firstDiscovery set_firstDiscovery)

theorem first_discovery_order_witness:
  "qualifyingFieldTypes fieldTypesGiven exampleSchema (Some [locationsQuery, introspectionQuery])
     = [introspectionDirectiveLocation, introspectionTypeKind, introspectionTypeKind, introspectionTypeKind]
   \<and> includeIntrospectionTypes fieldTypesGiven exampleSchema (Some [locationsQuery, introspectionQuery])
     = [introspectionDirectiveLocation, introspectionTypeKind]
   \<and> qualifyingFieldTypes fieldTypesGiven exampleSchema (Some [introspectionQuery, locationsQuery])
     = [introspectionTypeKind, introspectionTypeKind, introspectionDirectiveLocation, introspectionTypeKind]
   \<and> includeIntrospectionTypes fieldTypesGiven exampleSchema (Some [introspectionQuery, locationsQuery])
     = [introspectionTypeKind, introspectionDirectiveLocation]"
proof -
  have neq: "introspectionDirectiveLocation \<noteq> introspectionTypeKind"
    by (simp add: introspectionDirectiveLocation_def introspectionTypeKind_def)
  have q1: "qualifyingFieldTypes fieldTypesGiven exampleSchema (Some [locationsQuery, introspectionQuery])
     = [introspectionDirectiveLocation, introspectionTypeKind, introspectionTypeKind, introspectionTypeKind]"
    by (simp add: qualifyingFieldTypes_def model_defs example_defs)
  have q2: "qualifyingFieldTypes fieldTypesGiven exampleSchema (Some [introspectionQuery, locationsQuery])
     = [introspectionTypeKind, introspectionTypeKind, introspectionDirectiveLocation, introspectionTypeKind]"
    by (simp add: qualifyingFieldTypes_def model_defs example_defs)
  show ?thesis
    using first_discovery_order[of fieldTypesGiven exampleSchema "Some [locationsQuery, introspectionQuery]"]
      first_discovery_order[of fieldTypesGiven exampleSchema "Some [introspectionQuery, locationsQuery]"]
      neq
    unfolding q1 q2 by simp
qed

text \<open>
  Claim C7. The filtered map is the type map, in its order, restricted to the surviving
  names, and each output list of a returned context is the transformer applied to the
  entries of the filtered map of that list's class, in the order of the filtered map.
\<close>

theorem order_preserved:
  assumes "distinct (Object_keys typesMap)"
      and "schemaToTemplateContext typeInfo tr schema documents = Inr ctx"
  shows "clearTypes typesMap forcedTypes = filter (\<lambda>e. keepKey forcedTypes (fst e)) typesMap
       \<and> types ctx = map (transformGraphQLObject tr schema)
           (instancesOf GraphQLObjectType
              (clearTypes (getTypeMap schema) (allowList typeInfo schema documents)))
       \<and> inputTypes ctx = map (transformGraphQLObject tr schema)
           (instancesOf GraphQLInputObjectType
              (clearTypes (getTypeMap schema) (allowList typeInfo schema documents)))
       \<and> enums ctx = map (transformGraphQLEnum tr schema)
           (instancesOf GraphQLEnumType
              (clearTypes (getTypeMap schema) (allowList typeInfo schema documents)))
       \<and> unions ctx = map (transformUnion tr schema)
           (instancesOf GraphQLUnionType
              (clearTypes (getTypeMap schema) (allowList typeInfo schema documents)))
       \<and> scalars ctx = map (transformScalar tr schema)
           (instancesOf GraphQLScalarType
              (clearTypes (getTypeMap schema) (allowList typeInfo schema documents)))
       \<and> interfaces ctx = map (transformInterface tr schema)
           (instancesOf GraphQLInterfaceType
              (clearTypes (getTypeMap schema) (allowList typeInfo schema documents)))"
proof -
  have entries: "typesArray typeInfo schema documents
                   = clearTypes (getTypeMap schema) (allowList typeInfo schema documents)"
    by (simp add: typesArray_def objectMapToArray_id)
  show ?thesis
    using clearTypes_filter[OF assms(1)] context_Inr(2-7)[OF assms(2)]
    unfolding entries by simp
qed

theorem order_preserved_witness:
  "clearTypes (getTypeMap exampleSchema) []
     = [(''Query'', typeQuery), (''User'', typeUser), (''Role'', enumRole), (''Post'', typePost)]
   \<and> types exampleContext = [''Query'', ''User'', ''Post'']
   \<and> enums exampleContext = [''Role'']"
proof -
  have d: "distinct (Object_keys (getTypeMap exampleSchema))"
    by (simp add: exampleSchema_def Object_keys_def)
  have allow: "allowList fieldTypesGiven exampleSchema None = []"
    by (simp add: allowList_def includeIntrospectionTypes_def)
  have kept: "filter (\<lambda>e. keepKey [] (fst e)) (getTypeMap exampleSchema)
     = [(''Query'', typeQuery), (''User'', typeUser), (''Role'', enumRole), (''Post'', typePost)]"
    by (simp add: exampleSchema_def keepKey_def array_includes_def startsWith_def
                  GRAPHQL_PRIMITIVES_def)
  have inst: "instancesOf GraphQLObjectType
               [(''Query'', typeQuery), (''User'', typeUser), (''Role'', enumRole), (''Post'', typePost)]
                = [typeQuery, typeUser, typePost]"
       "instancesOf GraphQLEnumType
               [(''Query'', typeQuery), (''User'', typeUser), (''Role'', enumRole), (''Post'', typePost)]
                = [enumRole]"
    by (simp_all add: instancesOf_Cons instancesOf_Nil typeQuery_def typeUser_def enumRole_def
                      typePost_def)
  have names: "map (transformGraphQLObject nameTransformers exampleSchema) [typeQuery, typeUser, typePost]
                 = [''Query'', ''User'', ''Post'']"
       "map (transformGraphQLEnum nameTransformers exampleSchema) [enumRole] = [''Role'']"
    by (simp_all add: nameTransformers_def typeQuery_def typeUser_def typePost_def enumRole_def)
  note facts = order_preserved[OF d run_example, of "[]"]
  have filtered: "clearTypes (getTypeMap exampleSchema) []
     = [(''Query'', typeQuery), (''User'', typeUser), (''Role'', enumRole), (''Post'', typePost)]"
    using facts kept by simp
  have "types exampleContext = [''Query'', ''User'', ''Post'']"
    using facts unfolding allow filtered inst names by simp
  moreover have "enums exampleContext = [''Role'']"
    using facts unfolding allow filtered inst names by simp
  ultimately show ?thesis using filtered by simp
qed

text \<open>
  Claim C8. In every context that \<open>schemaToTemplateContext\<close> returns, each of the seven
  presence flags is true exactly when its list is not empty. In the examples after the
  theorem, the schema without an enum has \<open>hasEnums\<close> false and the schema with the enum
  \<open>Role\<close> has it true.
\<close>

theorem presence_flags:
  assumes "schemaToTemplateContext typeInfo tr schema documents = Inr ctx"
  shows "(hasTypes ctx \<longleftrightarrow> types ctx \<noteq> [])
       \<and> (hasInputTypes ctx \<longleftrightarrow> inputTypes ctx \<noteq> [])
       \<and> (hasEnums ctx \<longleftrightarrow> enums ctx \<noteq> [])
       \<and> (hasUnions ctx \<longleftrightarrow> unions ctx \<noteq> [])
       \<and> (hasScalars ctx \<longleftrightarrow> scalars ctx \<noteq> [])
       \<and> (hasInterfaces ctx \<longleftrightarrow> interfaces ctx \<noteq> [])
       \<and> (hasDefinedDirectives ctx \<longleftrightarrow> definedDirectives ctx \<noteq> [])"
  using context_Inr(9-15)[OF assms] by simp

theorem presence_flags_witness:
  "schemaToTemplateContext fieldTypesGiven nameTransformers schemaWithoutEnum None = Inr contextWithoutEnum
   \<and> \<not> hasEnums contextWithoutEnum \<and> enums contextWithoutEnum = []
   \<and> schemaToTemplateContext fieldTypesGiven nameTransformers exampleSchema None = Inr exampleContext
   \<and> hasEnums exampleContext \<and> enums exampleContext = [''Role'']
   \<and> \<not> hasScalars exampleContext \<and> scalars exampleContext = []
   \<and> hasTypes exampleContext \<and> types exampleContext = [''Query'', ''User'', ''Post'']"
proof -
  have lists: "enums contextWithoutEnum = []" "enums exampleContext = [''Role'']"
    "scalars exampleContext = []" "types exampleContext = [''Query'', ''User'', ''Post'']"
    by (simp_all add: contextWithoutEnum_def exampleContext_def)
  show ?thesis
    using presence_flags[OF run_schemaWithoutEnum] presence_flags[OF run_example]
      run_schemaWithoutEnum run_example
    unfolding lists by simp
qed

text \<open>
  Claim C9. \<open>clearTypes\<close> only removes entries: every key of the filtered map is a key of
  the original map, and a key of the filtered map is bound to the type object it is bound
  to in the original map.
\<close>

theorem clearTypes_only_removes:
  "set (Object_keys (clearTypes typesMap forcedTypes)) \<subseteq> set (Object_keys typesMap)
   \<and> (\<forall>key t. map_of (clearTypes typesMap forcedTypes) key = Some t \<longrightarrow> map_of typesMap key = Some t)"
proof
  show "set (Object_keys (clearTypes typesMap forcedTypes)) \<subseteq> set (Object_keys typesMap)"
    by (auto simp: keys_clearTypes)
next
  show "\<forall>key t. map_of (clearTypes typesMap forcedTypes) key = Some t \<longrightarrow> map_of typesMap key = Some t"
    by (simp add: map_of_clearTypes split: if_splits)
qed

theorem clearTypes_only_removes_witness:
  "map_of (clearTypes (getTypeMap exampleSchema) [''__TypeKind'']) ''__TypeKind'' = Some introspectionTypeKind
   \<and> map_of (getTypeMap exampleSchema) ''__TypeKind'' = Some introspectionTypeKind
   \<and> set (Object_keys (clearTypes (getTypeMap exampleSchema) [''__TypeKind'']))
        \<subseteq> set (Object_keys (getTypeMap exampleSchema))"
proof -
  have run: "map_of (clearTypes (getTypeMap exampleSchema) [''__TypeKind'']) ''__TypeKind''
               = Some introspectionTypeKind"
    by (simp add: model_defs example_defs)
  show ?thesis
    using clearTypes_only_removes[of "getTypeMap exampleSchema" "[''__TypeKind'']"] run by blast
qed

text \<open>
  Claim C10. A call of \<open>schemaToTemplateContext\<close> with an empty list of documents returns
  what the call with the documents omitted returns.
\<close>

theorem empty_documents_as_omitted:
  "schemaToTemplateContext typeInfo tr schema (Some []) = schemaToTemplateContext typeInfo tr schema None"
  by (simp add: schemaToTemplateContext_def includeIntrospectionTypes_def)

theorem empty_documents_as_omitted_witness:
  "schemaToTemplateContext fieldTypesGiven nameTransformers exampleSchema (Some []) = Inr exampleContext"
  using empty_documents_as_omitted[of fieldTypesGiven nameTransformers exampleSchema] run_example
  by simp

end
